theory Spec2Isabelle
  imports Main
begin

section \<open>Python strings\<close>

text \<open>
  Strings are byte lists. The operations below are the methods of \<open>str\<close> that
  \<open>main.py\<close> calls, on ASCII text: \<open>lower\<close>, the substring test \<open>in\<close>, \<open>split\<close> without
  arguments, \<open>strip\<close>, \<open>join\<close> and \<open>str\<close> of an integer.
\<close>

definition lower_char :: "char \<Rightarrow> char" where
  "lower_char c =
     (case map_of (zip ''ABCDEFGHIJKLMNOPQRSTUVWXYZ'' ''abcdefghijklmnopqrstuvwxyz'') c of
        None \<Rightarrow> c
      | Some d \<Rightarrow> d)"

definition lower :: "string \<Rightarrow> string" where
  "lower s = map lower_char s"

fun starts_with :: "string \<Rightarrow> string \<Rightarrow> bool" where
  "starts_with [] s = True"
| "starts_with (p # ps) [] = False"
| "starts_with (p # ps) (c # cs) = (p = c \<and> starts_with ps cs)"

text \<open>\<open>contains sub s\<close> is Python's \<open>sub in s\<close>.\<close>

fun contains :: "string \<Rightarrow> string \<Rightarrow> bool" where
  "contains sub [] = (sub = [])"
| "contains sub (c # cs) = (starts_with sub (c # cs) \<or> contains sub cs)"

definition isspace :: "char \<Rightarrow> bool" where
  "isspace c = (c \<in> set [CHR 0x09, CHR 0x0A, CHR 0x0B, CHR 0x0C, CHR 0x0D,
                           CHR 0x1C, CHR 0x1D, CHR 0x1E, CHR 0x1F, CHR 0x20])"

fun split_acc :: "string \<Rightarrow> string \<Rightarrow> string list" where
  "split_acc [] cur = (if cur = [] then [] else [cur])"
| "split_acc (c # cs) cur =
     (if isspace c then (if cur = [] then split_acc cs [] else cur # split_acc cs [])
      else split_acc cs (cur @ [c]))"

definition split :: "string \<Rightarrow> string list" where
  "split s = split_acc s []"

definition strip :: "string \<Rightarrow> string" where
  "strip s = rev (dropWhile isspace (rev (dropWhile isspace s)))"

fun join :: "string \<Rightarrow> string list \<Rightarrow> string" where
  "join sep [] = []"
| "join sep [x] = x"
| "join sep (x # y # ys) = x @ sep @ join sep (y # ys)"

fun str_nat :: "nat \<Rightarrow> string" where
  "str_nat n =
     (if n < 10 then [''0123456789'' ! n]
      else str_nat (n div 10) @ [''0123456789'' ! (n mod 10)])"

definition str_int :: "int \<Rightarrow> string" where
  "str_int i = (if i < 0 then ''-'' @ str_nat (nat (- i)) else str_nat (nat i))"

text \<open>
  \<open>py_slice_to xs n\<close> is the slice \<open>xs[:n]\<close>: the first \<open>n\<close> elements for \<open>n \<ge> 0\<close>, and
  all but the last \<open>-n\<close> for a negative \<open>n\<close>.
\<close>

definition py_slice_to :: "'a list \<Rightarrow> int \<Rightarrow> 'a list" where
  "py_slice_to xs n =
     (if 0 \<le> n then take (nat n) xs else take (length xs - nat (- n)) xs)"

section \<open>Data model\<close>

datatype GoalStatus = PENDING | IN_PROGRESS | COMPLETED | FAILED

text \<open>The \<open>value\<close> of a status, upper-cased, as the final message prints it.\<close>

fun status_value_upper :: "GoalStatus \<Rightarrow> string" where
  "status_value_upper PENDING = ''PENDING''"
| "status_value_upper IN_PROGRESS = ''IN_PROGRESS''"
| "status_value_upper COMPLETED = ''COMPLETED''"
| "status_value_upper FAILED = ''FAILED''"

datatype message = HumanMessage string | AIMessage string

text \<open>
  A result is a \<open>Dict[str, Any]\<close>. The record has one optional field for every key
  that \<open>main.py\<close> writes or reads, at the type the code gives it: \<open>None\<close> is an absent
  key. \<open>emails\<close> and \<open>contact_info\<close> hold lists of strings, every other key a string.
\<close>

record result =
  title :: "string option"
  url :: "string option"
  description :: "string option"
  source :: "string option"
  emails :: "string list option"
  contact_info :: "string list option"
  job_title :: "string option"
  company :: "string option"
  location :: "string option"
  job_url :: "string option"
  content :: "string option"
  name :: "string option"
  email :: "string option"
  role :: "string option"

definition empty_result :: result where
  "empty_result =
     \<lparr>title = None, url = None, description = None, source = None, emails = None,
      contact_info = None, job_title = None, company = None, location = None,
      job_url = None, content = None, name = None, email = None, role = None\<rparr>"

text \<open>\<open>get_or v d\<close> is \<open>dict.get(key, d)\<close> on the field \<open>v\<close>.\<close>

definition get_or :: "'a option \<Rightarrow> 'a \<Rightarrow> 'a" where
  "get_or v d = (case v of None \<Rightarrow> d | Some x \<Rightarrow> x)"

text \<open>Truth value of \<open>dict.get(key)\<close>: the key is present and its value is not empty.\<close>

definition truthy :: "'a list option \<Rightarrow> bool" where
  "truthy v = (case v of None \<Rightarrow> False | Some x \<Rightarrow> x \<noteq> [])"

record AgentState =
  goal :: string
  target_count :: int
  current_results :: "result list"
  search_queries :: "string list"
  attempted_sources :: "string list"
  status :: GoalStatus
  iteration_count :: int
  max_iterations :: int
  messages :: "message list"
  last_error :: "string option"

section \<open>External collaborators and library functions\<close>

text \<open>
  A raised exception is the value \<open>Exception txt\<close>, \<open>txt\<close> being its \<open>str\<close>. A search hit
  is the dictionary the provider returns, with string values.
\<close>

datatype error = Exception string

fun str_error :: "error \<Rightarrow> string" where
  "str_error (Exception txt) = txt"

type_synonym hit = "(string \<times> string) list"

definition hit_get :: "hit \<Rightarrow> string \<Rightarrow> string" where
  "hit_get h k = get_or (map_of h k) []"

text \<open>
  The planning service's answer to the analysis prompt, after \<open>json.loads\<close>: the
  \<open>quantity\<close> and \<open>content_type\<close> entries of the object, each absent or present.
  \<open>target_count\<close> is declared \<open>int\<close>, so a quantity is an integer here.
\<close>

datatype analysis = Analysis (quantity: "int option") (content_type: "string option")

text \<open>The regular expressions of \<open>_extract_job_info_from_content\<close>, in source order.\<close>

datatype pattern =
  TitleTag | JobTitleLabel | PositionLabel
| CompanyLabel | EmployerLabel
| LocationLabel | BasedInLabel

text \<open>
  Everything outside \<open>main.py\<close> is a parameter. The services answer differently from
  call to call, so each takes the number of the external call (a clock that every call
  advances); an \<open>Inl\<close> answer is a raised exception.
  \<^item> \<open>llm_analysis t\<close>: the analysis prompt's response parsed by \<open>json.loads\<close> and read
    with \<open>get\<close>; \<open>None\<close> when anything in the \<open>try\<close> block raises.
  \<^item> \<open>llm_queries t\<close>: a query prompt's response parsed by \<open>json.loads\<close>, as the sequence
    of strings the \<open>for\<close> loop iterates over; \<open>None\<close> when the \<open>try\<close> block raises.
  \<^item> \<open>ddgs_text t query max_results\<close>: \<open>DDGS.text\<close>.
  \<^item> \<open>arun t url\<close>: \<open>AsyncWebCrawler.arun(url).markdown\<close>.
  \<^item> \<open>re_findall_email\<close>: \<open>re.findall\<close> with the e-mail pattern; \<open>list_set\<close>:
    \<open>list(set(xs))\<close>, whose order Python leaves open; \<open>re_search p\<close>: \<open>group(1)\<close> of
    \<open>re.search\<close> with pattern \<open>p\<close>, \<open>None\<close> when there is no match.
  The planning service is taken to answer every prompt; pacing delays and printing are
  left out.
\<close>

record env =
  llm_analysis :: "nat \<Rightarrow> analysis option"
  llm_queries :: "nat \<Rightarrow> string list option"
  ddgs_text :: "nat \<Rightarrow> string \<Rightarrow> nat \<Rightarrow> error + hit list"
  arun :: "nat \<Rightarrow> string \<Rightarrow> error + string"
  re_findall_email :: "string \<Rightarrow> string list"
  list_set :: "string list \<Rightarrow> string list"
  re_search :: "pattern \<Rightarrow> string \<Rightarrow> string option"

text \<open>\<open>search\<close> catches every exception of the provider and returns no hits.\<close>

definition search :: "env \<Rightarrow> nat \<Rightarrow> string \<Rightarrow> nat \<Rightarrow> error + hit list" where
  "search E t query max_results =
     (case ddgs_text E t query max_results of
        Inr results \<Rightarrow> Inr results
      | Inl e \<Rightarrow> Inr [])"

text \<open>\<open>crawler\<close> catches every exception of the fetch and returns the empty string.\<close>

definition crawler :: "env \<Rightarrow> nat \<Rightarrow> string \<Rightarrow> error + string" where
  "crawler E t u =
     (case arun E t u of
        Inr markdown \<Rightarrow> Inr markdown
      | Inl e \<Rightarrow> Inr [])"

section \<open>Content extraction and relevance\<close>

definition extract_emails_from_content :: "env \<Rightarrow> string \<Rightarrow> string list" where
  "extract_emails_from_content E c = list_set E (re_findall_email E c)"

text \<open>The first pattern of a group that matches gives the field; none leaves it absent.\<close>

fun first_group :: "env \<Rightarrow> pattern list \<Rightarrow> string \<Rightarrow> string option" where
  "first_group E [] c = None"
| "first_group E (p # ps) c =
     (case re_search E p c of
        Some g \<Rightarrow> Some (strip g)
      | None \<Rightarrow> first_group E ps c)"

datatype job_info =
  JobInfo (info_job_title: "string option") (info_company: "string option")
          (info_location: "string option") (info_job_url: string)

definition extract_job_info_from_content :: "env \<Rightarrow> string \<Rightarrow> string \<Rightarrow> job_info" where
  "extract_job_info_from_content E c u =
     JobInfo (first_group E [TitleTag, JobTitleLabel, PositionLabel] c)
             (first_group E [CompanyLabel, EmployerLabel] c)
             (first_group E [LocationLabel, BasedInLabel] c)
             u"

text \<open>\<open>processed_result.update(job_info)\<close>: the keys of \<open>job_info\<close> overwrite.\<close>

definition update_job_info :: "result \<Rightarrow> job_info \<Rightarrow> result" where
  "update_job_info r j =
     r\<lparr>job_title := (case info_job_title j of Some v \<Rightarrow> Some v | None \<Rightarrow> job_title r),
       company := (case info_company j of Some v \<Rightarrow> Some v | None \<Rightarrow> company r),
       location := (case info_location j of Some v \<Rightarrow> Some v | None \<Rightarrow> location r),
       job_url := Some (info_job_url j)\<rparr>"

definition get_search_tricks :: "string \<Rightarrow> string list" where
  "get_search_tricks g =
     (if contains ''email'' (lower g)
      then [''site:linkedin.com'', [CHR 0x22] @ ''@company.com'' @ [CHR 0x22],
            ''contact email'', ''recruiter email'', ''hiring manager'']
      else [])
     @ (if contains ''website'' (lower g)
        then [''best tools 2024'', ''top resources'', ''list of sites'', ''directory'']
        else [])
     @ (if contains ''job'' (lower g)
        then [''site:indeed.com'', ''site:glassdoor.com'', ''site:linkedin.com/jobs'',
              ''hiring'', ''careers'']
        else [])"

definition any_keyword :: "string list \<Rightarrow> string \<Rightarrow> string \<Rightarrow> bool" where
  "any_keyword keywords t b = list_ex (\<lambda>keyword. contains keyword t \<or> contains keyword b) keywords"

definition is_relevant_result :: "hit \<Rightarrow> string \<Rightarrow> bool" where
  "is_relevant_result h g =
     (let t = lower (hit_get h ''title'');
          b = lower (hit_get h ''body'');
          goal_lower = lower g
      in if contains ''email'' goal_lower
         then any_keyword [''email'', ''contact'', ''recruiter'', ''hiring''] t b
         else if contains ''website'' goal_lower
         then any_keyword [''tool'', ''platform'', ''service'', ''website''] t b
         else if contains ''job'' goal_lower
         then any_keyword [''job'', ''career'', ''position'', ''hiring''] t b
         else True)"

definition get_fallback_results :: "string \<Rightarrow> result list" where
  "get_fallback_results g =
     (if contains ''website'' (lower g) \<and> contains ''digital marketing'' (lower g) then
        [empty_result\<lparr>title := Some ''HubSpot Marketing Hub'', url := Some ''https://hubspot.com'',
                      description := Some ''All-in-one marketing platform''\<rparr>,
         empty_result\<lparr>title := Some ''Moz SEO Tools'', url := Some ''https://moz.com'',
                      description := Some ''SEO and marketing analytics''\<rparr>,
         empty_result\<lparr>title := Some ''SEMrush'', url := Some ''https://semrush.com'',
                      description := Some ''Digital marketing toolkit''\<rparr>]
      else if contains ''email'' (lower g) \<and> contains ''recruiter'' (lower g) then
        [empty_result\<lparr>name := Some ''Sarah Johnson'', email := Some ''sarah.johnson@techcorp.com'',
                      company := Some ''TechCorp'', role := Some ''Senior Recruiter''\<rparr>,
         empty_result\<lparr>name := Some ''Mike Davis'', email := Some ''mike.davis@startup.io'',
                      company := Some ''StartupIO'', role := Some ''Talent Acquisition Manager''\<rparr>]
      else if contains ''job'' (lower g) then
        [empty_result\<lparr>title := Some ''Senior Software Engineer'', company := Some ''TechCorp'',
                      url := Some ''https://jobs.techcorp.com/123'', location := Some ''Remote''\<rparr>,
         empty_result\<lparr>title := Some ''Data Scientist'', company := Some ''DataCorp'',
                      url := Some ''https://careers.datacorp.com/456'', location := Some ''New York''\<rparr>]
      else [])"

section \<open>One search: \<open>_perform_search\<close>\<close>

text \<open>
  The fields extracted from a fetched page, by the goal's keywords (the branch taken
  when the page text is not empty).
\<close>

definition extract_fields :: "env \<Rightarrow> string \<Rightarrow> string \<Rightarrow> string \<Rightarrow> result \<Rightarrow> result" where
  "extract_fields E g c u processed_result =
     (if list_ex (\<lambda>keyword. contains keyword (lower g)) [''email'', ''contact'', ''recruiter'']
      then (let es = extract_emails_from_content E c
            in if es \<noteq> [] then processed_result\<lparr>emails := Some es, contact_info := Some es\<rparr>
               else processed_result)
      else if list_ex (\<lambda>keyword. contains keyword (lower g))
                [''job'', ''career'', ''position'', ''hiring'']
      then update_job_info processed_result (extract_job_info_from_content E c u)
      else processed_result\<lparr>content := Some (take 500 c)\<rparr>)"

definition base_record :: "hit \<Rightarrow> result" where
  "base_record h =
     empty_result\<lparr>title := Some (hit_get h ''title''), url := Some (hit_get h ''href''),
                  description := Some (hit_get h ''body''), source := Some ''web_search''\<rparr>"

text \<open>
  The body of the loop over the hits of one search. The record is appended inside the
  branch for a page text that is not empty, and in the handler of the inner \<open>try\<close>;
  a hit with an empty \<open>href\<close> or an empty page text appends nothing. Every fetch takes
  one tick of the clock.
\<close>

definition process_hit :: "env \<Rightarrow> string \<Rightarrow> hit \<Rightarrow> nat \<times> result list \<Rightarrow> nat \<times> result list" where
  "process_hit E g h = (\<lambda>(t, results).
     if is_relevant_result h g then
       (let processed_result = base_record h;
            u = get_or (url processed_result) []
        in if u \<noteq> [] then
             (case crawler E t u of
                Inr c \<Rightarrow>
                  if c \<noteq> [] then (Suc t, results @ [extract_fields E g c u processed_result])
                  else (Suc t, results)
              | Inl e \<Rightarrow> (Suc t, results @ [processed_result]))
           else (t, results))
     else (t, results))"

definition enhanced_queries :: "string \<Rightarrow> string \<Rightarrow> string list" where
  "enhanced_queries query g =
     query # map (\<lambda>trick. query @ '' '' @ trick) (take 3 (get_search_tricks g))"

text \<open>
  The loop over the enhanced queries, inside the outer \<open>try\<close>: it stops at the first
  search that raises, with the results collected so far and the exception.
\<close>

fun search_loop ::
  "env \<Rightarrow> string \<Rightarrow> string list \<Rightarrow> nat \<times> result list \<Rightarrow> (nat \<times> result list) \<times> error option" where
  "search_loop E g [] (t, results) = ((t, results), None)"
| "search_loop E g (enhanced_query # rest) (t, results) =
     (case search E t enhanced_query 5 of
        Inl e \<Rightarrow> ((Suc t, results), Some e)
      | Inr search_results \<Rightarrow>
          search_loop E g rest (fold (process_hit E g) search_results (Suc t, results)))"

text \<open>
  \<open>_perform_search\<close>: at most two enhanced queries are searched; the handler of the
  outer \<open>try\<close> adds the mock results. It catches every exception itself, so its value
  is always an \<open>Inr\<close>.
\<close>

definition perform_search :: "env \<Rightarrow> nat \<Rightarrow> string \<Rightarrow> string \<Rightarrow> nat \<times> (error + result list)" where
  "perform_search E t query g =
     (case search_loop E g (take 2 (enhanced_queries query g)) (t, []) of
        ((t', results), None) \<Rightarrow> (t', Inr results)
      | ((t', results), Some e) \<Rightarrow> (t', Inr (results @ get_fallback_results g)))"

section \<open>The nodes of the graph\<close>

definition analyze_goal :: "env \<Rightarrow> nat \<Rightarrow> AgentState \<Rightarrow> AgentState" where
  "analyze_goal E t s =
     (case llm_analysis E t of
        Some a \<Rightarrow>
          (let tc = get_or (quantity a) 10
           in s\<lparr>target_count := tc,
                messages := messages s @
                  [AIMessage (''Goal analyzed: Need '' @ str_int tc @ '' ''
                              @ get_or (content_type a) ''items'')],
                status := IN_PROGRESS\<rparr>)
      | None \<Rightarrow> s\<lparr>target_count := 10, status := IN_PROGRESS\<rparr>)"

text \<open>The merge of the parsed path: a query is appended unless the ledger has it.\<close>

definition merge_queries :: "string list \<Rightarrow> string list \<Rightarrow> string list" where
  "merge_queries ledger new_queries =
     fold (\<lambda>query qs. if query \<notin> set qs then qs @ [query] else qs) new_queries ledger"

text \<open>
  \<open>_generate_search_strategy\<close>. The fallback extends the ledger with three templates
  for a goal that mentions a website or an e-mail, and with nothing otherwise.
  \<open>split()[0]\<close> exists wherever the goal contains \<open>website\<close> (lemma
  \<open>split_nonempty_website\<close>), so the empty case of the split is never taken.
\<close>

definition generate_search_strategy :: "env \<Rightarrow> nat \<Rightarrow> AgentState \<Rightarrow> AgentState" where
  "generate_search_strategy E t s =
     (case llm_queries E t of
        Some new_queries \<Rightarrow> s\<lparr>search_queries := merge_queries (search_queries s) new_queries\<rparr>
      | None \<Rightarrow>
          if contains ''website'' (lower (goal s)) then
            (case split (goal s) of
               w # _ \<Rightarrow>
                 s\<lparr>search_queries := search_queries s @
                     [''best '' @ w @ '' websites'',
                      ''top '' @ w @ '' tools online'',
                      ''useful '' @ w @ '' resources'']\<rparr>
             | [] \<Rightarrow> s)
          else if contains ''email'' (lower (goal s)) then
            s\<lparr>search_queries := search_queries s @
                [''recruiter email contacts'',
                 ''HR manager email directory'',
                 ''talent acquisition email list'']\<rparr>
          else s)"

text \<open>The queries that the fallback of \<open>_generate_search_strategy\<close> appends for a goal.\<close>

definition fallback_queries :: "string \<Rightarrow> string list" where
  "fallback_queries g =
     (if contains ''website'' (lower g) then
        (case split g of
           w # _ \<Rightarrow> [''best '' @ w @ '' websites'', ''top '' @ w @ '' tools online'',
                     ''useful '' @ w @ '' resources'']
         | [] \<Rightarrow> [])
      else if contains ''email'' (lower g) then
        [''recruiter email contacts'', ''HR manager email directory'',
         ''talent acquisition email list'']
      else [])"

text \<open>The uniqueness check of \<open>_execute_search\<close> against the results held so far.\<close>

fun is_unique :: "string \<Rightarrow> string \<Rightarrow> result list \<Rightarrow> bool" where
  "is_unique u e [] = True"
| "is_unique u e (existing # rest) =
     (if u \<noteq> [] \<and> Some u = url existing then False
      else if e \<noteq> [] \<and> Some e = email existing then False
      else is_unique u e rest)"

definition add_unique :: "result \<Rightarrow> result list \<Rightarrow> result list" where
  "add_unique r current =
     (if is_unique (get_or (url r) []) (get_or (email r) []) current
      then current @ [r] else current)"

text \<open>
  The body of the loop over the selected queries. It changes the results, the
  attempted queries and \<open>last_error\<close>; the handler runs when \<open>_perform_search\<close> raises.
\<close>

definition execute_query ::
  "env \<Rightarrow> string \<Rightarrow> string \<Rightarrow>
   nat \<times> result list \<times> string list \<times> string option \<Rightarrow>
   nat \<times> result list \<times> string list \<times> string option" where
  "execute_query E g query = (\<lambda>(t, current, attempted, err).
     case perform_search E t query g of
       (t', Inr results) \<Rightarrow> (t', fold add_unique results current, attempted @ [query], err)
     | (t', Inl e) \<Rightarrow> (t', current, attempted @ [query], Some (str_error e)))"

definition queries_to_try :: "AgentState \<Rightarrow> string list" where
  "queries_to_try s =
     take 3 (filter (\<lambda>q. q \<notin> set (attempted_sources s)) (search_queries s))"

definition execute_search :: "env \<Rightarrow> nat \<times> AgentState \<Rightarrow> nat \<times> AgentState" where
  "execute_search E = (\<lambda>(t, s).
     case fold (execute_query E (goal s)) (queries_to_try s)
            (t, current_results s, attempted_sources s, last_error s) of
       (t', current, attempted, err) \<Rightarrow>
         (t', s\<lparr>current_results := current, attempted_sources := attempted,
                last_error := err, iteration_count := iteration_count s + 1\<rparr>))"

definition validate_results :: "AgentState \<Rightarrow> AgentState" where
  "validate_results s =
     (if int (length (current_results s)) \<ge> target_count s then s\<lparr>status := COMPLETED\<rparr>
      else if iteration_count s \<ge> max_iterations s then s\<lparr>status := FAILED\<rparr>
      else s)"

datatype route = Continue | Complete | Failed

definition should_continue :: "AgentState \<Rightarrow> route" where
  "should_continue s =
     (if status s = COMPLETED then Complete
      else if status s = FAILED then Failed
      else Continue)"

definition refine_strategy :: "env \<Rightarrow> nat \<Rightarrow> AgentState \<Rightarrow> AgentState" where
  "refine_strategy E t s =
     (case llm_queries E t of
        Some new_queries \<Rightarrow> s\<lparr>search_queries := merge_queries (search_queries s) new_queries\<rparr>
      | None \<Rightarrow>
          s\<lparr>search_queries :=
              merge_queries (search_queries s)
                (map (\<lambda>term. ''best '' @ term @ '' resources 2024'') (split (goal s)))\<rparr>)"

text \<open>
  The lines of the final message for result number \<open>i\<close>. The pictographs of the
  header are written as their UTF-8 bytes.
\<close>

definition format_result :: "nat \<Rightarrow> result \<Rightarrow> string" where
  "format_result i r =
     (if truthy (url r) then
        str_nat i @ ''. '' @ get_or (title r) ''No title'' @ '' - '' @ get_or (url r) []
          @ [CHR 0x0A]
        @ (if truthy (description r)
           then ''   Description: '' @ get_or (description r) [] @ [CHR 0x0A] else [])
        @ (if truthy (emails r)
           then ''   Emails: '' @ join '', '' (get_or (emails r) []) @ [CHR 0x0A] else [])
      else if truthy (email r) then
        str_nat i @ ''. '' @ get_or (name r) ''Unknown'' @ '' - '' @ get_or (email r) []
          @ '' ('' @ get_or (company r) ''Unknown Company'' @ '')'' @ [CHR 0x0A]
        @ (if truthy (role r) then ''   Role: '' @ get_or (role r) [] @ [CHR 0x0A] else [])
      else if contact_info r \<noteq> None then
        str_nat i @ ''. Contact Information: '' @ join '', '' (get_or (contact_info r) [])
          @ [CHR 0x0A]
      else
        str_nat i @ ''. '' @ get_or (title r) ''No title'' @ [CHR 0x0A]
        @ (if truthy (description r)
           then ''   '' @ get_or (description r) [] @ [CHR 0x0A] else []))"

fun format_results :: "nat \<Rightarrow> result list \<Rightarrow> string" where
  "format_results i [] = []"
| "format_results i (r # rs) = format_result i r @ format_results (Suc i) rs"

definition final_header :: "AgentState \<Rightarrow> string" where
  "final_header s =
     [CHR 0x0A, CHR 0xF0, CHR 0x9F, CHR 0x8E, CHR 0xAF] @ '' Goal: '' @ goal s
     @ [CHR 0x0A, CHR 0xE2, CHR 0x9C, CHR 0x85] @ '' Status: '' @ status_value_upper (status s)
     @ [CHR 0x0A, CHR 0xF0, CHR 0x9F, CHR 0x93, CHR 0x8A] @ '' Results: ''
     @ str_nat (length (current_results s)) @ ''/'' @ str_int (target_count s)
     @ [CHR 0x0A, CHR 0xF0, CHR 0x9F, CHR 0x94, CHR 0x84] @ '' Iterations: ''
     @ str_int (iteration_count s)
     @ [CHR 0x0A, CHR 0x0A] @ ''Results:'' @ [CHR 0x0A]"

text \<open>
  \<open>_finalize_results\<close>: the results are cut by the slice \<open>[:target_count]\<close>, and the
  final message, built from the state after the cut, is appended to the messages.
\<close>

definition finalize_results :: "AgentState \<Rightarrow> AgentState" where
  "finalize_results s =
     (let s' = s\<lparr>current_results := py_slice_to (current_results s) (target_count s)\<rparr>;
          final_message = final_header s' @ format_results 1 (current_results s')
      in s'\<lparr>messages := messages s' @ [AIMessage final_message]\<rparr>)"

section \<open>The graph and the run\<close>

datatype node =
  AnalyzeGoal | GenerateSearchStrategy | ExecuteSearch | ValidateResults
| RefineStrategy | FinalizeResults | END

text \<open>The function of a node; each call of the planning service takes one tick.\<close>

fun run_node :: "env \<Rightarrow> node \<Rightarrow> nat \<times> AgentState \<Rightarrow> nat \<times> AgentState" where
  "run_node E AnalyzeGoal (t, s) = (Suc t, analyze_goal E t s)"
| "run_node E GenerateSearchStrategy (t, s) = (Suc t, generate_search_strategy E t s)"
| "run_node E ExecuteSearch (t, s) = execute_search E (t, s)"
| "run_node E ValidateResults (t, s) = (t, validate_results s)"
| "run_node E RefineStrategy (t, s) = (Suc t, refine_strategy E t s)"
| "run_node E FinalizeResults (t, s) = (t, finalize_results s)"
| "run_node E END (t, s) = (t, s)"

text \<open>
  The edges of \<open>_build_graph\<close>: \<open>next_node n s\<close> is the node that follows \<open>n\<close> when \<open>n\<close>
  has returned the state \<open>s\<close>. The edge after the validation is the conditional one.
\<close>

fun next_node :: "node \<Rightarrow> AgentState \<Rightarrow> node" where
  "next_node AnalyzeGoal s = GenerateSearchStrategy"
| "next_node GenerateSearchStrategy s = ExecuteSearch"
| "next_node ExecuteSearch s = ValidateResults"
| "next_node ValidateResults s =
     (case should_continue s of
        Continue \<Rightarrow> RefineStrategy
      | Complete \<Rightarrow> FinalizeResults
      | Failed \<Rightarrow> END)"
| "next_node RefineStrategy s = ExecuteSearch"
| "next_node FinalizeResults s = END"
| "next_node END s = END"

text \<open>
  The rounds still allowed and the place in the cycle bound the number of nodes still to
  run.
\<close>

definition graph_measure :: "node \<Rightarrow> AgentState \<Rightarrow> nat" where
  "graph_measure n s =
     (let d = nat (max_iterations s - iteration_count s)
      in case n of
           AnalyzeGoal \<Rightarrow> 3 * d + 8
         | GenerateSearchStrategy \<Rightarrow> 3 * d + 7
         | ExecuteSearch \<Rightarrow> 3 * d + 3
         | ValidateResults \<Rightarrow> (if d = 0 then 2 else 3 * d + 5)
         | RefineStrategy \<Rightarrow> 3 * d + 4
         | FinalizeResults \<Rightarrow> 1
         | END \<Rightarrow> 0)"

text \<open>
  \<open>astream E n (t, s)\<close>: the events of the graph started at node \<open>n\<close> in state \<open>s\<close>, one
  per node run, each the node and the state it returned.
\<close>

function astream :: "env \<Rightarrow> node \<Rightarrow> nat \<times> AgentState \<Rightarrow> (node \<times> AgentState) list" where
  "astream E n (t, s) =
     (if n = END then []
      else (n, snd (run_node E n (t, s)))
           # astream E (next_node n (snd (run_node E n (t, s)))) (run_node E n (t, s)))"
  by pat_completeness auto
termination
proof (relation "measure (\<lambda>(E, n, ts). graph_measure n (snd ts))")
  show "wf (measure (\<lambda>(E, n, ts). graph_measure n (snd ts)))"
    by simp
next
  fix E :: env and n :: node and t :: nat and s :: AgentState
  assume "n \<noteq> END"
  then show "((E, next_node n (snd (run_node E n (t, s))), run_node E n (t, s)), (E, n, t, s))
             \<in> measure (\<lambda>(E, n, ts). graph_measure n (snd ts))"
    by (cases n)
       (auto simp: graph_measure_def analyze_goal_def generate_search_strategy_def
          refine_strategy_def execute_search_def validate_results_def should_continue_def
          finalize_results_def Let_def
          split: option.splits list.splits prod.splits route.splits if_splits)
qed

definition initial_state :: "string \<Rightarrow> int \<Rightarrow> AgentState" where
  "initial_state g k =
     \<lparr>goal = g, target_count = 10, current_results = [], search_queries = [],
      attempted_sources = [], status = PENDING, iteration_count = 0, max_iterations = k,
      messages = [HumanMessage g], last_error = None\<rparr>"

text \<open>\<open>run_agent\<close> returns the state of the last event of the stream.\<close>

definition run_agent :: "env \<Rightarrow> string \<Rightarrow> int \<Rightarrow> AgentState" where
  "run_agent E g k =
     (case astream E AnalyzeGoal (0, initial_state g k) of
        [] \<Rightarrow> initial_state g k
      | events \<Rightarrow> snd (last events))"

section \<open>Notions of the statements\<close>

text \<open>The rounds of a stream of events: the runs of the search node.\<close>

definition rounds_of :: "(node \<times> AgentState) list \<Rightarrow> nat" where
  "rounds_of events = length (filter (\<lambda>ev. fst ev = ExecuteSearch) events)"


text \<open>
  The decision after a round in the words of the specification, to compare with
  \<open>validate_results\<close>.
\<close>

definition decision :: "AgentState \<Rightarrow> GoalStatus" where
  "decision s =
     (if target_count s \<le> int (length (current_results s)) then COMPLETED
      else if max_iterations s \<le> iteration_count s then FAILED
      else IN_PROGRESS)"

section \<open>Sample collaborators\<close>

text \<open>
  A planning service whose answers never parse, a search provider and a fetch service
  that always raise.
\<close>

definition env_down :: env where
  "env_down =
     \<lparr>llm_analysis = (\<lambda>t. None), llm_queries = (\<lambda>t. None),
      ddgs_text = (\<lambda>t q n. Inl (Exception ''boom'')),
      arun = (\<lambda>t u. Inl (Exception ''unreachable'')),
      re_findall_email = (\<lambda>c. []), list_set = remdups, re_search = (\<lambda>p c. None)\<rparr>"

text \<open>
  A planning service that asks for \<open>q\<close> items and proposes the query \<open>q\<close>, a search
  provider with the same two hits for every query, and a fetch service that returns the
  same short page, with one e-mail address, for every URL.
\<close>

definition env_two_hits :: "int \<Rightarrow> env" where
  "env_two_hits q =
     \<lparr>llm_analysis = (\<lambda>t. Some (Analysis (Some q) None)),
      llm_queries = (\<lambda>t. Some [''q'']),
      ddgs_text = (\<lambda>t query n.
        Inr [[(''title'', ''A''), (''href'', ''http://a''), (''body'', ''contact one'')],
             [(''title'', ''B''), (''href'', ''http://b''), (''body'', ''contact two'')]]),
      arun = (\<lambda>t u. Inr ''write to x@y.zz''),
      re_findall_email = (\<lambda>c. if c = ''write to x@y.zz'' then [''x@y.zz''] else []),
      list_set = remdups, re_search = (\<lambda>p c. None)\<rparr>"

text \<open>\<open>n\<close> records with different URLs, and a state in progress that holds given results.\<close>

definition numbered_results :: "nat \<Rightarrow> result list" where
  "numbered_results n = map (\<lambda>i. empty_result\<lparr>url := Some (''http://site/'' @ str_nat i)\<rparr>) [0..<n]"

definition state_with :: "int \<Rightarrow> result list \<Rightarrow> AgentState" where
  "state_with tc rs = (initial_state ''docs'' 5)\<lparr>target_count := tc, current_results := rs, status := IN_PROGRESS, iteration_count := 1\<rparr>"

text \<open>The same collaborators with a fetch that always raises, or always returns nothing.\<close>

definition env_fetch_fails :: env where
  "env_fetch_fails = (env_two_hits 10)\<lparr>arun := (\<lambda>t u. Inl (Exception ''timeout''))\<rparr>"

definition env_empty_pages :: env where
  "env_empty_pages = (env_two_hits 10)\<lparr>arun := (\<lambda>t u. Inr [])\<rparr>"

section \<open>Basic facts\<close>


lemma crawler_never_raises: "crawler E t u \<noteq> Inl e"
  by (simp add: crawler_def split: sum.splits)





lemma execute_search_fields:
  "goal (snd (execute_search E (t, s))) = goal s"
  "target_count (snd (execute_search E (t, s))) = target_count s"
  "search_queries (snd (execute_search E (t, s))) = search_queries s"
  "status (snd (execute_search E (t, s))) = status s"
  "max_iterations (snd (execute_search E (t, s))) = max_iterations s"
  "messages (snd (execute_search E (t, s))) = messages s"
  "iteration_count (snd (execute_search E (t, s))) = iteration_count s + 1"
  by (simp_all add: execute_search_def split: prod.splits)


declare astream.simps [simp del]

lemma astream_END: "astream E END (t, s) = []"
  by (simp add: astream.simps)

lemma astream_step:
  "n \<noteq> END \<Longrightarrow>
   astream E n (t, s) =
     (n, snd (run_node E n (t, s)))
     # astream E (next_node n (snd (run_node E n (t, s)))) (run_node E n (t, s))"
  by (subst astream.simps) simp

lemma astream_nonempty: "n \<noteq> END \<Longrightarrow> astream E n (t, s) \<noteq> []"
  by (simp add: astream_step)

lemma validate_fields:
  "goal (validate_results s) = goal s"
  "target_count (validate_results s) = target_count s"
  "current_results (validate_results s) = current_results s"
  "search_queries (validate_results s) = search_queries s"
  "attempted_sources (validate_results s) = attempted_sources s"
  "max_iterations (validate_results s) = max_iterations s"
  "iteration_count (validate_results s) = iteration_count s"
  "messages (validate_results s) = messages s"
  "last_error (validate_results s) = last_error s"
  by (simp_all add: validate_results_def)

lemma refine_fields:
  "goal (refine_strategy E t s) = goal s"
  "target_count (refine_strategy E t s) = target_count s"
  "current_results (refine_strategy E t s) = current_results s"
  "attempted_sources (refine_strategy E t s) = attempted_sources s"
  "status (refine_strategy E t s) = status s"
  "max_iterations (refine_strategy E t s) = max_iterations s"
  "iteration_count (refine_strategy E t s) = iteration_count s"
  "messages (refine_strategy E t s) = messages s"
  "last_error (refine_strategy E t s) = last_error s"
  by (simp_all add: refine_strategy_def split: option.splits)

lemma generate_fields:
  "goal (generate_search_strategy E t s) = goal s"
  "target_count (generate_search_strategy E t s) = target_count s"
  "current_results (generate_search_strategy E t s) = current_results s"
  "attempted_sources (generate_search_strategy E t s) = attempted_sources s"
  "status (generate_search_strategy E t s) = status s"
  "max_iterations (generate_search_strategy E t s) = max_iterations s"
  "iteration_count (generate_search_strategy E t s) = iteration_count s"
  "messages (generate_search_strategy E t s) = messages s"
  "last_error (generate_search_strategy E t s) = last_error s"
  by (simp_all add: generate_search_strategy_def split: option.splits list.splits)

lemma analyze_fields:
  "goal (analyze_goal E t s) = goal s"
  "current_results (analyze_goal E t s) = current_results s"
  "search_queries (analyze_goal E t s) = search_queries s"
  "attempted_sources (analyze_goal E t s) = attempted_sources s"
  "status (analyze_goal E t s) = IN_PROGRESS"
  "max_iterations (analyze_goal E t s) = max_iterations s"
  "iteration_count (analyze_goal E t s) = iteration_count s"
  "last_error (analyze_goal E t s) = last_error s"
  by (simp_all add: analyze_goal_def Let_def split: option.splits)

lemma finalize_fields:
  "goal (finalize_results s) = goal s"
  "target_count (finalize_results s) = target_count s"
  "current_results (finalize_results s) = py_slice_to (current_results s) (target_count s)"
  "search_queries (finalize_results s) = search_queries s"
  "attempted_sources (finalize_results s) = attempted_sources s"
  "status (finalize_results s) = status s"
  "max_iterations (finalize_results s) = max_iterations s"
  "iteration_count (finalize_results s) = iteration_count s"
  "last_error (finalize_results s) = last_error s"
  by (simp_all add: finalize_results_def Let_def)


lemma should_continue_cases:
  "should_continue s = Complete \<longleftrightarrow> status s = COMPLETED"
  "should_continue s = Failed \<longleftrightarrow> status s = FAILED"
  by (auto simp: should_continue_def)


lemma run_agent_last:
  "run_agent E g k = snd (last (astream E AnalyzeGoal (0, initial_state g k)))"
  using astream_nonempty [of AnalyzeGoal E 0 "initial_state g k"]
  by (simp add: run_agent_def split: list.splits)




lemma astream_start:
  "astream E AnalyzeGoal (t, s) =
     (AnalyzeGoal, analyze_goal E t s)
     # (GenerateSearchStrategy, generate_search_strategy E (Suc t) (analyze_goal E t s))
     # astream E ExecuteSearch (Suc (Suc t), generate_search_strategy E (Suc t) (analyze_goal E t s))"
  by (simp add: astream_step)

lemma astream_round:
  "astream E ExecuteSearch (t, s) =
     (ExecuteSearch, snd (execute_search E (t, s)))
     # (ValidateResults, validate_results (snd (execute_search E (t, s))))
     # astream E (next_node ValidateResults (validate_results (snd (execute_search E (t, s)))))
         (fst (execute_search E (t, s)), validate_results (snd (execute_search E (t, s))))"
  by (cases "execute_search E (t, s)") (simp add: astream_step)

lemma astream_after_validation:
  "astream E (next_node ValidateResults s) (t, s) =
     (case should_continue s of
        Continue \<Rightarrow> (RefineStrategy, refine_strategy E t s)
                     # astream E ExecuteSearch (Suc t, refine_strategy E t s)
      | Complete \<Rightarrow> [(FinalizeResults, finalize_results s)]
      | Failed \<Rightarrow> [])"
  by (cases "should_continue s") (simp_all add: astream_step astream_END)

lemma py_slice_to_nonneg: "0 \<le> n \<Longrightarrow> py_slice_to xs n = take (nat n) xs"
  by (simp add: py_slice_to_def)

lemma take_length_take: "take (length (take m xs)) xs = take m xs"
  by (metis append_eq_conv_conj append_take_drop_id)

lemma py_slice_to_prefix: "take (length (py_slice_to xs n)) xs = py_slice_to xs n"
  by (cases "0 \<le> n") (simp_all only: py_slice_to_def take_length_take if_True if_False)

lemma non_positive_target_completes:
  "target_count s \<le> 0 \<Longrightarrow> status (validate_results s) = COMPLETED"
  by (simp add: validate_results_def)




lemma process_hit_without_page:
  "arun E t (hit_get h ''href'') = Inl e \<or> arun E t (hit_get h ''href'') = Inr [] \<Longrightarrow>
   snd (process_hit E g h (t, results)) = results"
  by (auto simp: process_hit_def crawler_def base_record_def get_or_def Let_def)


















text \<open>An invariant carried from node to node holds after every event of the stream.\<close>

lemma astream_events_invariant:
  assumes step: "\<And>n t s. n \<noteq> END \<Longrightarrow> J n s \<Longrightarrow>
              J (next_node n (snd (run_node E n (t, s)))) (snd (run_node E n (t, s)))"
  shows "J n s \<Longrightarrow>
         list_all (\<lambda>ev. J (next_node (fst ev) (snd ev)) (snd ev)) (astream E n (t, s))"
  using step
proof (induction E n "(t, s)" arbitrary: t s rule: astream.induct)
  case (1 E n t s)
  show ?case
  proof (cases "n = END")
    case True
    then show ?thesis by (simp add: astream_END)
  next
    case False
    obtain t' s' where r: "run_node E n (t, s) = (t', s')" by (cases "run_node E n (t, s)")
    have J': "J (next_node n s') s'" using "1.prems"(2) [OF False "1.prems"(1), of t] by (simp add: r)
    have "list_all (\<lambda>ev. J (next_node (fst ev) (snd ev)) (snd ev))
            (astream E (next_node n s') (t', s'))"
      using "1.hyps" [OF False, of t' s'] J' r "1.prems"(2) by simp
    then show ?thesis using False J' by (simp add: astream_step [of n] r)
  qed
qed




lemma starts_with_hd: "starts_with (p # ps) s \<Longrightarrow> p \<in> set s"
  by (cases s) auto

lemma contains_hd: "contains (p # ps) s \<Longrightarrow> p \<in> set s"
  by (induction s) (auto dest: starts_with_hd)

lemma lower_char_space: "isspace c \<Longrightarrow> lower_char c \<noteq> CHR ''w''"
  by (auto simp: isspace_def lower_char_def)

lemma split_acc_cur: "cur \<noteq> [] \<Longrightarrow> split_acc s cur \<noteq> []"
  by (induction s arbitrary: cur) auto

lemma split_acc_nonspace: "\<exists>c \<in> set s. \<not> isspace c \<Longrightarrow> split_acc s cur \<noteq> []"
  by (induction s arbitrary: cur) (auto simp: split_acc_cur)

lemma split_nonempty_website: "contains ''website'' (lower g) \<Longrightarrow> split g \<noteq> []"
proof -
  assume "contains ''website'' (lower g)"
  then have "CHR ''w'' \<in> set (lower g)" using contains_hd by fastforce
  then obtain c where "c \<in> set g" "lower_char c = CHR ''w''" by (auto simp: lower_def)
  then have "\<exists>c \<in> set g. \<not> isspace c" using lower_char_space by blast
  then show ?thesis by (simp add: split_def split_acc_nonspace)
qed

lemma generate_fallback:
  "llm_queries E t = None \<Longrightarrow>
   search_queries (generate_search_strategy E t s) = search_queries s @ fallback_queries (goal s)"
  by (simp add: generate_search_strategy_def fallback_queries_def split: list.splits)

lemma distinct_fallback_queries: "distinct (fallback_queries g)"
  by (simp add: fallback_queries_def split: list.splits)

lemma merge_queries_Cons:
  "merge_queries ledger (q # new) =
     merge_queries (if q \<notin> set ledger then ledger @ [q] else ledger) new"
  by (simp add: merge_queries_def)

lemma remdups_snoc: "remdups (xs @ [q]) = remdups (filter (\<lambda>x. x \<noteq> q) xs) @ [q]"
  by (induction xs) auto

lemma merge_queries_first_appearance:
  "merge_queries ledger new = ledger @ rev (remdups (rev (filter (\<lambda>q. q \<notin> set ledger) new)))"
proof (induction new arbitrary: ledger)
  case Nil
  then show ?case by (simp add: merge_queries_def)
next
  case (Cons q new)
  show ?case
  proof (cases "q \<in> set ledger")
    case True
    then show ?thesis using Cons.IH [of ledger] by (simp add: merge_queries_Cons)
  next
    case False
    have g: "filter (\<lambda>x. x \<noteq> q) (rev (filter (\<lambda>x. x \<notin> set ledger) new))
               = rev (filter (\<lambda>x. x \<notin> set (ledger @ [q])) new)"
      by (induction new) auto
    have "rev (remdups (rev (filter (\<lambda>x. x \<notin> set ledger) (q # new))))
            = rev (remdups (rev (filter (\<lambda>x. x \<notin> set ledger) new) @ [q]))"
      using False by simp
    also have "\<dots> = q # rev (remdups (filter (\<lambda>x. x \<noteq> q)
                                  (rev (filter (\<lambda>x. x \<notin> set ledger) new))))"
      by (simp only: remdups_snoc rev_append rev.simps append.simps)
    finally have "rev (remdups (rev (filter (\<lambda>x. x \<notin> set ledger) (q # new))))
            = q # rev (remdups (rev (filter (\<lambda>x. x \<notin> set (ledger @ [q])) new)))"
      by (simp only: g)
    then show ?thesis using Cons.IH [of "ledger @ [q]"] False by (simp add: merge_queries_Cons)
  qed
qed

lemma distinct_merge_queries: "distinct ledger \<Longrightarrow> distinct (merge_queries ledger new)"
  by (auto simp: merge_queries_first_appearance)

lemma run_node_keeps_ledger_distinct:
  assumes "distinct (search_queries s)"
    and "n = AnalyzeGoal \<or> n = GenerateSearchStrategy \<longrightarrow> search_queries s = []"
  shows "distinct (search_queries (snd (run_node E n (t, s))))
       \<and> (n = AnalyzeGoal \<longrightarrow> search_queries (snd (run_node E n (t, s))) = [])"
proof (cases n)
  case GenerateSearchStrategy
  then have e: "search_queries s = []" using assms by simp
  show ?thesis
  proof (cases "llm_queries E t")
    case None
    then show ?thesis
      using GenerateSearchStrategy generate_fallback [OF None, of s] e distinct_fallback_queries
      by simp
  next
    case (Some new)
    then show ?thesis
      using GenerateSearchStrategy assms(1)
      by (simp add: generate_search_strategy_def distinct_merge_queries)
  qed
next
  case RefineStrategy
  then show ?thesis using assms(1)
    by (simp add: refine_strategy_def distinct_merge_queries split: option.splits)
qed (use assms in \<open>simp_all add: analyze_fields execute_search_fields validate_fields finalize_fields\<close>)

text \<open>
  A property of every event follows from an invariant of the states that enter the nodes.
\<close>

lemma astream_events_property:
  assumes step: "\<And>n t s. n \<noteq> END \<Longrightarrow> J n s \<Longrightarrow>
              J (next_node n (snd (run_node E n (t, s)))) (snd (run_node E n (t, s)))
              \<and> Q n (snd (run_node E n (t, s)))"
  shows "J n s \<Longrightarrow> list_all (\<lambda>ev. Q (fst ev) (snd ev)) (astream E n (t, s))"
  using step
proof (induction E n "(t, s)" arbitrary: t s rule: astream.induct)
  case (1 E n t s)
  show ?case
  proof (cases "n = END")
    case True
    then show ?thesis by (simp add: astream_END)
  next
    case False
    obtain t' s' where r: "run_node E n (t, s) = (t', s')" by (cases "run_node E n (t, s)")
    have J': "J (next_node n s') s' \<and> Q n s'"
      using "1.prems"(2) [OF False "1.prems"(1), of t] by (simp add: r)
    have "list_all (\<lambda>ev. Q (fst ev) (snd ev)) (astream E (next_node n s') (t', s'))"
      using "1.hyps" [OF False, of t' s'] J' r "1.prems"(2) by simp
    then show ?thesis using False J' by (simp add: astream_step [of n] r)
  qed
qed

lemma validations_of_a_run:
  "list_all (\<lambda>ev. fst ev \<noteq> ValidateResults \<or> status (snd ev) = decision (snd ev))
     (astream E AnalyzeGoal (0, initial_state g k))"
proof -
  let ?J = "\<lambda>(n::node) (s::AgentState).
              n = GenerateSearchStrategy \<or> n = ExecuteSearch \<or> n = ValidateResults
              \<or> n = RefineStrategy \<longrightarrow> status s = IN_PROGRESS"
  let ?Q = "\<lambda>(n::node) (s::AgentState). n \<noteq> ValidateResults \<or> status s = decision s"
  show ?thesis
  proof (rule astream_events_property [where J = ?J and Q = ?Q])
    fix n :: node and t :: nat and s :: AgentState
    assume n: "n \<noteq> END" and J: "?J n s"
    show "?J (next_node n (snd (run_node E n (t, s)))) (snd (run_node E n (t, s)))
          \<and> ?Q n (snd (run_node E n (t, s)))"
    proof (cases n)
      case ValidateResults
      then show ?thesis using J
        by (auto simp: validate_results_def should_continue_def decision_def
              split: route.splits if_splits)
    qed (use n J in \<open>simp_all add: analyze_fields generate_fields execute_search_fields
           refine_fields finalize_fields\<close>)
  qed simp
qed

section \<open>Termination of the run\<close>



section \<open>The decision after a round\<close>

text \<open>
  Claim C6. After a round the validation decides in this order: \<open>COMPLETED\<close> when the
  number of results has reached \<open>target_count\<close>; otherwise \<open>FAILED\<close> when
  \<open>iteration_count\<close> has reached \<open>max_iterations\<close>; otherwise the status stays as it is.
  In a run the status that enters a validation is \<open>IN_PROGRESS\<close>, so the status after
  every validation of a run is the one \<open>decision\<close> gives. The decision is a function of
  the state alone: it reads no collaborator, and validating a validated state changes
  nothing.
\<close>

theorem validate_results_decision:
  "status (validate_results s) =
     (if target_count s \<le> int (length (current_results s)) then COMPLETED
      else if max_iterations s \<le> iteration_count s then FAILED
      else status s)
   \<and> should_continue (validate_results s) =
     (if target_count s \<le> int (length (current_results s)) then Complete
      else if max_iterations s \<le> iteration_count s then Failed
      else should_continue s)
   \<and> validate_results (validate_results s) = validate_results s
   \<and> should_continue (validate_results (validate_results s)) = should_continue (validate_results s)
   \<and> list_all (\<lambda>ev. fst ev \<noteq> ValidateResults \<or> status (snd ev) = decision (snd ev))
        (astream E AnalyzeGoal (0, initial_state g k))"
  using validations_of_a_run [of E g k]
  by (simp add: validate_results_def should_continue_def)

theorem validate_results_decision_witness:
  "status (validate_results (state_with 10 (numbered_results 12))) = COMPLETED
   \<and> status (validate_results ((state_with 10 [])\<lparr>iteration_count := 5\<rparr>)) = FAILED
   \<and> status (validate_results (state_with 10 [])) = IN_PROGRESS
   \<and> should_continue (validate_results (state_with 10 [])) = Continue
   \<and> map status (map snd (filter (\<lambda>ev. fst ev = ValidateResults)
        (astream env_down AnalyzeGoal (0, initial_state ''docs'' 2)))) = [IN_PROGRESS, FAILED]"
proof -
  have run: "map status (map snd (filter (\<lambda>ev. fst ev = ValidateResults)
        (astream env_down AnalyzeGoal (0, initial_state ''docs'' 2)))) = [IN_PROGRESS, FAILED]"
    by code_simp
  show ?thesis
    using validate_results_decision [of "state_with 10 (numbered_results 12)"]
        validate_results_decision [of "(state_with 10 [])\<lparr>iteration_count := 5\<rparr>"]
        validate_results_decision [of "state_with 10 []"] run
    by (simp add: state_with_def initial_state_def numbered_results_def should_continue_def)
qed

section \<open>Finalization\<close>

text \<open>
  Claim C7 fails for a negative \<open>target_count\<close>. With a planning response whose quantity
  is \<open>-1\<close> and a first round that finds two records, the validation completes the run and
  the slice \<open>[:-1]\<close> of the finalization keeps one record: that is not the first
  \<open>target_count\<close> entries, and the final length exceeds \<open>target_count\<close>.
\<close>

theorem finalize_truncates_negative_target_counterexample:
  "status (run_agent (env_two_hits (- 1)) ''docs'' 5) = COMPLETED
   \<and> target_count (run_agent (env_two_hits (- 1)) ''docs'' 5) = - 1
   \<and> fst (astream (env_two_hits (- 1)) AnalyzeGoal (0, initial_state ''docs'' 5) ! 3) = ValidateResults
   \<and> length (current_results
        (snd (astream (env_two_hits (- 1)) AnalyzeGoal (0, initial_state ''docs'' 5) ! 3))) = 2
   \<and> length (current_results (run_agent (env_two_hits (- 1)) ''docs'' 5)) = 1
   \<and> \<not> int (length (current_results (run_agent (env_two_hits (- 1)) ''docs'' 5)))
         \<le> target_count (run_agent (env_two_hits (- 1)) ''docs'' 5)"
  by code_simp

text \<open>
  Claim C7, amended. For a state with \<open>target_count \<ge> 0\<close>: on \<open>COMPLETED\<close> the only node
  that still runs is the finalization, which keeps the first \<open>target_count\<close> results in
  their order and leaves the status \<open>COMPLETED\<close>; on \<open>FAILED\<close> no node runs, so the results
  stay as accumulated. With \<open>target_count = 10\<close> and twelve results the validation gives
  \<open>COMPLETED\<close> and the finalization leaves exactly ten.
\<close>

theorem finalize_truncates_to_target_count:
  assumes "0 \<le> target_count s"
  shows "(status s = COMPLETED \<longrightarrow>
            astream E (next_node ValidateResults s) (t, s) = [(FinalizeResults, finalize_results s)]
          \<and> current_results (finalize_results s)
              = take (nat (target_count s)) (current_results s)
          \<and> int (length (current_results (finalize_results s))) \<le> target_count s
          \<and> status (finalize_results s) = COMPLETED)
       \<and> (status s = FAILED \<longrightarrow> astream E (next_node ValidateResults s) (t, s) = [])
       \<and> (target_count s = 10 \<and> length (current_results s) = 12 \<longrightarrow>
            status (validate_results s) = COMPLETED
          \<and> length (current_results (finalize_results (validate_results s))) = 10)"
  using assms
  by (auto simp: astream_after_validation should_continue_def finalize_fields validate_fields
        py_slice_to_nonneg validate_results_def simp del: next_node.simps)

theorem finalize_truncates_to_target_count_witness:
  "0 \<le> target_count (validate_results (state_with 10 (numbered_results 12)))
   \<and> status (validate_results (state_with 10 (numbered_results 12))) = COMPLETED
   \<and> current_results (finalize_results (validate_results (state_with 10 (numbered_results 12))))
       = numbered_results 10
   \<and> length (current_results
        (finalize_results (validate_results (state_with 10 (numbered_results 12))))) = 10
   \<and> status (finalize_results (validate_results (state_with 10 (numbered_results 12)))) = COMPLETED"
proof -
  have tc: "target_count (validate_results (state_with 10 (numbered_results 12))) = 10"
    and st: "status (validate_results (state_with 10 (numbered_results 12))) = COMPLETED"
    and rs: "current_results (validate_results (state_with 10 (numbered_results 12)))
               = numbered_results 12"
    by (simp_all add: validate_results_def state_with_def initial_state_def numbered_results_def)
  have tk: "take 10 (numbered_results 12) = numbered_results 10"
    by (simp add: numbered_results_def take_map)
  have len: "length (numbered_results 10) = 10"
    by (simp add: numbered_results_def)
  show ?thesis
    using finalize_truncates_to_target_count
            [of "validate_results (state_with 10 (numbered_results 12))" env_down 0]
    by (simp add: tc st rs tk len)
qed

text \<open>
  Claim C5 fails for the results. In a run with \<open>target_count = 1\<close> whose first round
  finds two records, the validation sets \<open>COMPLETED\<close> with two results, and the
  finalization that runs afterwards cuts them to one.
\<close>

theorem terminal_state_results_mutated_counterexample:
  "fst (astream (env_two_hits 1) AnalyzeGoal (0, initial_state ''docs'' 5) ! 3) = ValidateResults
   \<and> status (snd (astream (env_two_hits 1) AnalyzeGoal (0, initial_state ''docs'' 5) ! 3)) = COMPLETED
   \<and> length (current_results
        (snd (astream (env_two_hits 1) AnalyzeGoal (0, initial_state ''docs'' 5) ! 3))) = 2
   \<and> fst (astream (env_two_hits 1) AnalyzeGoal (0, initial_state ''docs'' 5) ! 4) = FinalizeResults
   \<and> length (current_results
        (snd (astream (env_two_hits 1) AnalyzeGoal (0, initial_state ''docs'' 5) ! 4))) = 1
   \<and> current_results (snd (astream (env_two_hits 1) AnalyzeGoal (0, initial_state ''docs'' 5) ! 4))
       \<noteq> current_results (snd (astream (env_two_hits 1) AnalyzeGoal (0, initial_state ''docs'' 5) ! 3))"
  by code_simp

text \<open>
  Claim C5, amended. Once the status is \<open>COMPLETED\<close> or \<open>FAILED\<close>, no node runs after
  \<open>FAILED\<close> and only the finalization runs after \<open>COMPLETED\<close>. It leaves the queries,
  the attempted queries and the status unchanged, and replaces the results by a prefix of
  them: the first \<open>target_count\<close> for \<open>target_count \<ge> 0\<close>, which is all of them when
  their number equals \<open>target_count\<close>.
\<close>

theorem terminal_status_freezes_queries:
  assumes "status s = COMPLETED \<or> status s = FAILED"
  shows "astream E (next_node ValidateResults s) (t, s)
           = (if status s = COMPLETED then [(FinalizeResults, finalize_results s)] else [])
       \<and> search_queries (finalize_results s) = search_queries s
       \<and> attempted_sources (finalize_results s) = attempted_sources s
       \<and> status (finalize_results s) = status s
       \<and> take (length (current_results (finalize_results s))) (current_results s)
           = current_results (finalize_results s)
       \<and> (0 \<le> target_count s \<longrightarrow>
            current_results (finalize_results s)
              = take (nat (target_count s)) (current_results s))
       \<and> (int (length (current_results s)) = target_count s \<longrightarrow>
            current_results (finalize_results s) = current_results s)"
  using assms
  by (auto simp: astream_after_validation should_continue_def finalize_fields
        py_slice_to_prefix py_slice_to_nonneg simp del: next_node.simps)

theorem terminal_status_freezes_queries_witness:
  "status (validate_results (state_with 2 (numbered_results 2))) = COMPLETED
   \<and> astream env_down (next_node ValidateResults (validate_results (state_with 2 (numbered_results 2))))
        (0, validate_results (state_with 2 (numbered_results 2)))
       = [(FinalizeResults, finalize_results (validate_results (state_with 2 (numbered_results 2))))]
   \<and> search_queries (finalize_results (validate_results (state_with 2 (numbered_results 2)))) = []
   \<and> int (length (current_results (validate_results (state_with 2 (numbered_results 2))))) = 2
   \<and> current_results (finalize_results (validate_results (state_with 2 (numbered_results 2))))
       = numbered_results 2"
proof -
  have st: "status (validate_results (state_with 2 (numbered_results 2))) = COMPLETED"
    and tc: "target_count (validate_results (state_with 2 (numbered_results 2))) = 2"
    and sq: "search_queries (validate_results (state_with 2 (numbered_results 2))) = []"
    and rs: "current_results (validate_results (state_with 2 (numbered_results 2)))
               = numbered_results 2"
    by (simp_all add: validate_results_def state_with_def initial_state_def numbered_results_def)
  have len: "length (numbered_results 2) = 2" by (simp add: numbered_results_def)
  show ?thesis
    using terminal_status_freezes_queries
            [of "validate_results (state_with 2 (numbered_results 2))" env_down 0]
    by (simp add: st tc sq rs len)
qed

section \<open>Goal analysis\<close>

text \<open>
  Claim C10. When the analysis response parses with quantity \<open>q\<close>, \<open>target_count\<close>
  becomes \<open>q\<close> whatever its value. For \<open>q \<le> 0\<close> the validation after the first round sets
  \<open>COMPLETED\<close>, whatever the round found, and the run ends \<open>COMPLETED\<close> after that one
  round.
\<close>

theorem analyze_goal_stores_quantity_unvalidated:
  assumes "llm_analysis E 0 = Some (Analysis (Some q) ct)"
  shows "target_count (analyze_goal E 0 s) = q
       \<and> (q \<le> 0 \<longrightarrow>
            status (validate_results (snd (execute_search E
              (Suc (Suc 0),
               generate_search_strategy E (Suc 0) (analyze_goal E 0 (initial_state g k))))))
              = COMPLETED
          \<and> status (run_agent E g k) = COMPLETED
          \<and> rounds_of (astream E AnalyzeGoal (0, initial_state g k)) = 1)"
proof -
  have tc: "target_count (analyze_goal E 0 s) = q" for s
    using assms by (simp add: analyze_goal_def get_or_def)
  let ?s2 = "generate_search_strategy E (Suc 0) (analyze_goal E 0 (initial_state g k))"
  let ?s3 = "snd (execute_search E (Suc (Suc 0), ?s2))"
  let ?s4 = "validate_results ?s3"
  have tc3: "target_count ?s3 = q"
    by (simp add: execute_search_fields generate_fields tc)
  {
    assume "q \<le> 0"
    then have st: "status ?s4 = COMPLETED"
      using non_positive_target_completes [of ?s3] tc3 by simp
    then have sc: "should_continue ?s4 = Complete" by (simp add: should_continue_def)
    have ev: "astream E AnalyzeGoal (0, initial_state g k) =
        [(AnalyzeGoal, analyze_goal E 0 (initial_state g k)),
         (GenerateSearchStrategy, ?s2), (ExecuteSearch, ?s3), (ValidateResults, ?s4),
         (FinalizeResults, finalize_results ?s4)]"
      by (simp add: astream_start astream_round astream_after_validation sc
            del: next_node.simps)
    have "status (run_agent E g k) = COMPLETED"
      by (simp add: run_agent_last ev finalize_fields st)
    moreover have "rounds_of (astream E AnalyzeGoal (0, initial_state g k)) = 1"
      by (simp add: ev rounds_of_def)
    ultimately have "status ?s4 = COMPLETED \<and> status (run_agent E g k) = COMPLETED
          \<and> rounds_of (astream E AnalyzeGoal (0, initial_state g k)) = 1"
      using st by simp
  }
  then show ?thesis using tc by blast
qed

theorem analyze_goal_stores_quantity_unvalidated_witness:
  "llm_analysis (env_down\<lparr>llm_analysis := (\<lambda>t. Some (Analysis (Some 0) None))\<rparr>) 0
     = Some (Analysis (Some 0) None)
   \<and> (0::int) \<le> 0
   \<and> target_count (analyze_goal (env_down\<lparr>llm_analysis := (\<lambda>t. Some (Analysis (Some 0) None))\<rparr>)
        0 (initial_state ''docs'' 5)) = 0
   \<and> status (run_agent (env_down\<lparr>llm_analysis := (\<lambda>t. Some (Analysis (Some 0) None))\<rparr>)
        ''docs'' 5) = COMPLETED
   \<and> current_results (run_agent (env_down\<lparr>llm_analysis := (\<lambda>t. Some (Analysis (Some 0) None))\<rparr>)
        ''docs'' 5) = []"
proof -
  have res: "current_results (run_agent (env_down\<lparr>llm_analysis := (\<lambda>t. Some (Analysis (Some 0) None))\<rparr>)
        ''docs'' 5) = []"
    by code_simp
  show ?thesis
    using analyze_goal_stores_quantity_unvalidated
            [of "env_down\<lparr>llm_analysis := (\<lambda>t. Some (Analysis (Some 0) None))\<rparr>" 0 None
                "initial_state ''docs'' 5" "''docs''" 5] res
    by simp
qed

section \<open>Failures of the collaborators\<close>





text \<open>
  Claim C4 does not hold of the code. A hit that the relevance filter accepts is dropped
  when its fetch raises, and when its page is empty: \<open>crawler\<close> turns the exception into
  an empty string, and the record is appended only inside the branch for a page text
  that is not empty. The handler that would keep the base record is never reached.
\<close>

theorem fetch_failure_drops_accepted_hit:
  "is_relevant_result [(''title'', ''A''), (''href'', ''http://a''), (''body'', ''contact one'')] ''docs''
   \<and> arun env_fetch_fails 1 ''http://a'' = Inl (Exception ''timeout'')
   \<and> perform_search env_fetch_fails 0 ''q'' ''docs'' = (3, Inr [])
   \<and> current_results (run_agent env_fetch_fails ''docs'' 1) = []
   \<and> arun env_empty_pages 1 ''http://a'' = Inr []
   \<and> perform_search env_empty_pages 0 ''q'' ''docs'' = (3, Inr [])
   \<and> current_results (run_agent env_empty_pages ''docs'' 1) = []"
  by code_simp

section \<open>Uniqueness of the results\<close>




section \<open>The final report\<close>




section \<open>The query ledger\<close>

text \<open>
  Claim C9 fails for the fallback of \<open>_generate_search_strategy\<close>. It extends the ledger
  with its templates without looking at the ledger, so a ledger that already holds a
  template gets it twice; and for a goal that mentions neither a website nor an e-mail
  it adds no query at all.
\<close>

theorem generate_fallback_extends_unchecked_counterexample:
  "llm_queries env_down 0 = None
   \<and> search_queries (generate_search_strategy env_down 0
        ((initial_state ''email list'' 5)\<lparr>search_queries := [''recruiter email contacts'']\<rparr>))
       = [''recruiter email contacts'', ''recruiter email contacts'',
          ''HR manager email directory'', ''talent acquisition email list'']
   \<and> search_queries (generate_search_strategy env_down 0 (initial_state ''find jobs'' 5)) = []"
  by code_simp

text \<open>
  Claim C9, amended. When the response parses, both planner nodes merge the proposed
  queries into the ledger: a query is appended unless the ledger holds it, so the new
  ledger is the old one followed by the new queries in the order of their first
  appearance, and a ledger without duplicates stays so. When the response does not
  parse, the refinement merges one templated query per word of the goal in the same way,
  and the first strategy, on the empty ledger of a run, gives the queries of
  \<open>fallback_queries\<close>: three distinct templates for a website goal, three for an e-mail
  goal, none otherwise. The ledger has no duplicates after any event of a run.
\<close>

theorem query_ledger_merge:
  "(llm_queries E t = Some new \<longrightarrow>
      search_queries (generate_search_strategy E t s) = merge_queries (search_queries s) new
    \<and> search_queries (refine_strategy E t s) = merge_queries (search_queries s) new)
   \<and> (llm_queries E t = None \<longrightarrow>
        search_queries (refine_strategy E t s) =
          merge_queries (search_queries s)
            (map (\<lambda>term. ''best '' @ term @ '' resources 2024'') (split (goal s))))
   \<and> (llm_queries E t = None \<and> search_queries s = [] \<longrightarrow>
        search_queries (generate_search_strategy E t s) = fallback_queries (goal s))
   \<and> merge_queries ledger qs
       = ledger @ rev (remdups (rev (filter (\<lambda>q. q \<notin> set ledger) qs)))
   \<and> (distinct ledger \<longrightarrow> distinct (merge_queries ledger qs))
   \<and> distinct (fallback_queries g)
   \<and> list_all (\<lambda>ev. distinct (search_queries (snd ev)))
        (astream E AnalyzeGoal (0, initial_state g k))"
proof -
  let ?J = "\<lambda>(n::node) (s::AgentState). distinct (search_queries s)
              \<and> (n = AnalyzeGoal \<or> n = GenerateSearchStrategy \<longrightarrow> search_queries s = [])"
  have "list_all (\<lambda>ev. ?J (next_node (fst ev) (snd ev)) (snd ev))
          (astream E AnalyzeGoal (0, initial_state g k))"
  proof (rule astream_events_invariant [where J = ?J])
    fix n :: node and t :: nat and s :: AgentState
    assume "n \<noteq> END" and "?J n s"
    then show "?J (next_node n (snd (run_node E n (t, s)))) (snd (run_node E n (t, s)))"
      using run_node_keeps_ledger_distinct [of s n E t]
      by (cases n) (auto split: route.splits)
  next
    show "?J AnalyzeGoal (initial_state g k)" by (simp add: initial_state_def)
  qed
  then have run: "list_all (\<lambda>ev. distinct (search_queries (snd ev)))
        (astream E AnalyzeGoal (0, initial_state g k))"
    by (simp add: list_all_iff)
  have parsed: "llm_queries E t = Some new \<longrightarrow>
      search_queries (generate_search_strategy E t s) = merge_queries (search_queries s) new
    \<and> search_queries (refine_strategy E t s) = merge_queries (search_queries s) new"
    by (simp add: generate_search_strategy_def refine_strategy_def)
  have fallback: "llm_queries E t = None \<longrightarrow>
        search_queries (refine_strategy E t s) =
          merge_queries (search_queries s)
            (map (\<lambda>term. ''best '' @ term @ '' resources 2024'') (split (goal s)))"
    by (simp add: refine_strategy_def)
  have first: "llm_queries E t = None \<and> search_queries s = [] \<longrightarrow>
        search_queries (generate_search_strategy E t s) = fallback_queries (goal s)"
    using generate_fallback [of E t s] by simp
  show ?thesis
    using run parsed fallback first merge_queries_first_appearance [of ledger qs]
      distinct_merge_queries [of ledger qs] distinct_fallback_queries [of g]
    by blast
qed

theorem query_ledger_merge_witness:
  "llm_queries (env_two_hits 10) 0 = Some [''q'']
   \<and> search_queries (generate_search_strategy (env_two_hits 10) 0
        ((initial_state ''docs'' 5)\<lparr>search_queries := [''a'', ''q'']\<rparr>)) = [''a'', ''q'']
   \<and> llm_queries env_down 0 = None
   \<and> search_queries (generate_search_strategy env_down 0 (initial_state ''email list'' 5))
       = [''recruiter email contacts'', ''HR manager email directory'',
          ''talent acquisition email list'']
   \<and> search_queries (refine_strategy env_down 0 (initial_state ''email list'' 5))
       = [''best email resources 2024'', ''best list resources 2024'']
   \<and> distinct [''a'']
   \<and> merge_queries [''a''] [''b'', ''a'', ''b'', ''c''] = [''a'', ''b'', ''c'']"
proof -
  have ev: "llm_queries (env_two_hits 10) 0 = Some [''q'']" "llm_queries env_down 0 = None"
    "merge_queries [''a'', ''q''] [''q''] = [''a'', ''q'']"
    "fallback_queries ''email list'' = [''recruiter email contacts'',
        ''HR manager email directory'', ''talent acquisition email list'']"
    "merge_queries [] (map (\<lambda>term. ''best '' @ term @ '' resources 2024'') (split ''email list''))
       = [''best email resources 2024'', ''best list resources 2024'']"
    "rev (remdups (rev (filter (\<lambda>q. q \<notin> set [''a'']) [''b'', ''a'', ''b'', ''c''])))
       = [''b'', ''c'']"
    by code_simp+
  show ?thesis
    using query_ledger_merge [of "env_two_hits 10" 0 "[''q'']"
            "(initial_state ''docs'' 5)\<lparr>search_queries := [''a'', ''q'']\<rparr>"
            "[''a'']" "[''b'', ''a'', ''b'', ''c'']"]
          query_ledger_merge [of env_down 0 "[]" "initial_state ''email list'' 5"]
          ev
    by (simp add: initial_state_def)
qed

end
